theory Spec2Isabelle
  imports Complex_Main
begin

section \<open>Data model of the in-process player (lottie-player.ts)\<close>

text \<open>
  JavaScript numbers are modelled as exact reals: rounding, NaN and the infinities are
  outside the model. Theorems that depend on a division state that the divisor is not 0
  (JavaScript yields NaN or an infinity there, HOL yields 0). \<open>Date.now()\<close> is a parameter
  of every operation that reads the clock, in milliseconds as in the source.
\<close>

datatype Renderer = SW | WG | GL

datatype InitStatus = IDLE | FAILED | REQUESTED | INITIALIZED

datatype FileType = JSON | LOT | JPG | PNG | SVG

datatype PlayerState = Destroyed | Error | Loading | Paused | Playing | Stopped | Frozen

datatype PlayMode = Bounce | Normal

text \<open>The events of enum \<open>PlayerEvent\<close>, with the detail the source attaches to them.\<close>

datatype PlayerEvent =
    Ev_Complete
  | Ev_Destroyed
  | Ev_Error "string option"
  | Ev_Frame real
  | Ev_Freeze
  | Ev_Load
  | Ev_Loop
  | Ev_Pause
  | Ev_Play
  | Ev_Ready
  | Ev_Stop
  | Ev_RendererFallback Renderer Renderer

text \<open>
  What a player does to the outside world, in the order it does it: events dispatched to
  the observers, the timed delay \<open>_wait\<close>, calls of the engine's \<open>frame\<close>, the paint
  step \<open>_render\<close> and the request for the next redraw callback.
\<close>

datatype effect =
    Dispatch PlayerEvent
  | Wait real
  | TVG_frame real
  | Render
  | RequestAnimationFrame

text \<open>
  The external engine handle \<open>_TVG\<close> is opaque: the model keeps the answers the player
  reads from it.
\<close>

record engine =
  tvg_totalFrame :: real
  tvg_duration :: real
  tvg_frame :: "real \<Rightarrow> bool"

record LottiePlayer =
  src :: "string option"
  fileType :: FileType
  renderer :: "Renderer option"
  speed :: real
  autoPlay :: bool
  count :: "real option"
  loop :: bool
  direction :: int
  mode :: PlayMode
  intermission :: real
  totalFrame :: real
  currentFrame :: real
  currentState :: PlayerState
  TVG :: "engine option"
  beginTime :: real
  counter :: real
  timer :: bool
  observable :: bool
  actualRenderer :: "Renderer option"
  trace :: "effect list"

text \<open>A call on a null \<open>_TVG\<close> throws; the state reached before the throw is kept.\<close>

datatype 'a outcome = Returns 'a | Throws 'a

fun state_of :: "'a outcome \<Rightarrow> 'a" where
  "state_of (Returns s) = s"
| "state_of (Throws s) = s"

definition emit :: "effect \<Rightarrow> LottiePlayer \<Rightarrow> LottiePlayer" where
  "emit e p = p\<lparr>trace := trace p @ [e]\<rparr>"

definition dispatchEvent :: "PlayerEvent \<Rightarrow> LottiePlayer \<Rightarrow> LottiePlayer" where
  "dispatchEvent ev p = emit (Dispatch ev) p"

section \<open>Player commands\<close>

definition pause :: "LottiePlayer \<Rightarrow> LottiePlayer" where
  "pause p = dispatchEvent Ev_Pause (p\<lparr>currentState := Paused\<rparr>)"

definition freeze :: "LottiePlayer \<Rightarrow> LottiePlayer" where
  "freeze p = dispatchEvent Ev_Freeze (p\<lparr>currentState := Frozen\<rparr>)"

text \<open>\<open>play()\<close>; \<open>now\<close> is the value of \<open>Date.now()\<close>.\<close>

definition play :: "real \<Rightarrow> LottiePlayer \<Rightarrow> LottiePlayer outcome" where
  "play now p =
     (if fileType p \<noteq> JSON \<and> fileType p \<noteq> LOT then Returns p
      else case TVG p of
        None \<Rightarrow> Throws p
      | Some tvg \<Rightarrow>
          (let p1 = p\<lparr>totalFrame := tvg_totalFrame tvg\<rparr> in
           if totalFrame p1 < 1 then Returns p1
           else
             (let p2 = p1\<lparr>beginTime := now / 1000\<rparr> in
              if currentState p2 = Playing then Returns p2
              else if observable p2
                then Returns (emit RequestAnimationFrame (p2\<lparr>currentState := Playing\<rparr>))
              else Returns (p2\<lparr>currentState := Frozen\<rparr>))))"

text \<open>\<open>_frame(curFrame)\<close>.\<close>

definition frame :: "real \<Rightarrow> LottiePlayer \<Rightarrow> LottiePlayer outcome" where
  "frame curFrame p =
     (let p1 = (pause p)\<lparr>currentFrame := curFrame\<rparr> in
      case TVG p1 of
        None \<Rightarrow> Throws p1
      | Some tvg \<Rightarrow> Returns (emit (TVG_frame curFrame) p1))"

text \<open>
  \<open>_render()\<close>: resize, viewport, update and paint are calls on the engine and the canvas;
  the model records that the paint step ran, or the throw on a null engine.
\<close>

definition render :: "LottiePlayer \<Rightarrow> LottiePlayer outcome" where
  "render p = (case TVG p of None \<Rightarrow> Throws p | Some tvg \<Rightarrow> Returns (emit Render p))"

text \<open>
  The repeat limit of \<open>_update\<close>:
  \<open>this.count ? this.mode === PlayMode.Bounce ? this.count * 2 : this.count : 0\<close>.
  A count that is undefined or 0 is falsy.
\<close>

definition truthy :: "real option \<Rightarrow> bool" where
  "truthy c = (case c of None \<Rightarrow> False | Some v \<Rightarrow> v \<noteq> 0)"

definition totalCount :: "LottiePlayer \<Rightarrow> real" where
  "totalCount p =
     (if truthy (count p) then (if mode p = Bounce then the (count p) * 2 else the (count p))
      else 0)"

text \<open>The frame that \<open>_update\<close> computes from the clock, before the completion test.\<close>

definition clock_frame :: "engine \<Rightarrow> real \<Rightarrow> LottiePlayer \<Rightarrow> real" where
  "clock_frame tvg now p =
     (let f = (now / 1000 - beginTime p) / tvg_duration tvg * totalFrame p * speed p in
      if direction p = - 1 then totalFrame p - f else f)"

text \<open>
  \<open>_update()\<close>. \<open>now\<close> is \<open>Date.now()\<close> at the tick, \<open>now'\<close> is \<open>Date.now()\<close> when
  \<open>play()\<close> runs after the intermission. The result carries the boolean that
  \<open>_update\<close> returns.
\<close>

definition update :: "real \<Rightarrow> real \<Rightarrow> LottiePlayer \<Rightarrow> (LottiePlayer \<times> bool) outcome" where
  "update now now' p =
     (if currentState p \<noteq> Playing then Returns (p, False)
      else case TVG p of
        None \<Rightarrow> Throws (p, False)
      | Some tvg \<Rightarrow>
          (let p1 = p\<lparr>currentFrame := clock_frame tvg now p\<rparr> in
           if (direction p1 = 1 \<and> currentFrame p1 \<ge> totalFrame p1) \<or>
              (direction p1 = - 1 \<and> currentFrame p1 \<le> 0)
           then
             (if loop p1 \<or> (totalCount p1 \<noteq> 0 \<and> counter p1 < totalCount p1) then
                (let p2 = (if mode p1 = Bounce then
                             (let d = (if direction p1 = 1 then - 1 else 1) in
                              p1\<lparr>direction := d,
                                 currentFrame := (if d = 1 then 0 else totalFrame p1)\<rparr>)
                           else p1);
                     p3 = (if truthy (count p2) then p2\<lparr>counter := counter p2 + 1\<rparr> else p2);
                     p4 = emit (Wait (intermission p3)) p3
                 in case play now' p4 of
                      Returns p5 \<Rightarrow> Returns (p5, True)
                    | Throws p5 \<Rightarrow> Throws (p5, False))
              else
                (let p2 = (dispatchEvent Ev_Complete p1)\<lparr>currentState := Stopped\<rparr>;
                     p3 = dispatchEvent (Ev_Frame (currentFrame p2)) p2
                 in Returns (emit (TVG_frame (currentFrame p3)) p3,
                             tvg_frame tvg (currentFrame p3))))
           else
             (let p2 = dispatchEvent (Ev_Frame (currentFrame p1)) p1
              in Returns (emit (TVG_frame (currentFrame p2)) p2,
                          tvg_frame tvg (currentFrame p2)))))"

text \<open>
  \<open>seek(frame)\<close> is asynchronous. \<open>seek_sync\<close> is what runs before \<open>seek\<close> first
  yields: \<open>_frame\<close> and the call of \<open>_update\<close>, which returns at once because the state
  is Paused. \<open>seek\<close> is the whole command, with the paint step that follows.
\<close>

definition seek_sync :: "real \<Rightarrow> real \<Rightarrow> LottiePlayer \<Rightarrow> LottiePlayer outcome" where
  "seek_sync now f p =
     (case frame f p of
        Throws p1 \<Rightarrow> Throws p1
      | Returns p1 \<Rightarrow>
          (case update now now p1 of
             Throws (p2, b) \<Rightarrow> Throws p2
           | Returns (p2, b) \<Rightarrow> Returns p2))"

definition seek :: "real \<Rightarrow> real \<Rightarrow> LottiePlayer \<Rightarrow> LottiePlayer outcome" where
  "seek now f p =
     (case seek_sync now f p of
        Throws p1 \<Rightarrow> Throws p1
      | Returns p1 \<Rightarrow> render p1)"

text \<open>
  \<open>stop()\<close> up to its return: the call of \<open>seek(0)\<close> runs \<open>seek_sync\<close>, its rejection
  (if any) stays in the promise, then the stop event is dispatched.
\<close>

definition stop :: "real \<Rightarrow> LottiePlayer \<Rightarrow> LottiePlayer" where
  "stop now p =
     (let p1 = p\<lparr>currentState := Stopped, currentFrame := 0, counter := 1\<rparr>;
          p2 = state_of (seek_sync now 0 p1)
      in dispatchEvent Ev_Stop p2)"

text \<open>
  \<open>_observerCallback(entries)\<close> for the first entry, whose target is the player;
  \<open>isIntersecting\<close> is the entry's flag and \<open>now\<close> the clock read by \<open>play()\<close>.
\<close>

definition observerCallback :: "real \<Rightarrow> bool \<Rightarrow> LottiePlayer \<Rightarrow> LottiePlayer outcome" where
  "observerCallback now isIntersecting p =
     (let p1 = p\<lparr>observable := isIntersecting\<rparr> in
      if isIntersecting then
        (if currentState p1 = Frozen then play now p1 else Returns p1)
      else if currentState p1 = Playing then
        Returns (dispatchEvent Ev_Freeze (freeze p1))
      else Returns p1)"

text \<open>The effects a command added to the trace of the player it started from.\<close>

definition new_effects :: "LottiePlayer \<Rightarrow> LottiePlayer \<Rightarrow> effect list" where
  "new_effects p p' = drop (length (trace p)) (trace p')"

section \<open>Renderer initialisation (lottie-player.ts)\<close>

text \<open>
  The module-level variables \<open>_module\<close>, \<open>_moduleRequested\<close> and \<open>_initStatus\<close>, shared
  by all players of the page.
\<close>

record globals =
  module_loaded :: bool
  moduleRequested :: bool
  initStatus :: InitStatus

text \<open>
  What one run of \<open>_init\<close> meets outside the player: whether the WASM module arrives,
  the values of \<open>_initStatus\<close> seen at each re-check of the poll loop (another initializer
  writes them), the successive results of \<open>_module.init()\<close>, and the engine handle that
  \<open>new _module.TvgLottieAnimation(engine, selector)\<close> returns.
\<close>

record init_env =
  module_ok :: bool
  polls :: "InitStatus list"
  init_results :: "int list"
  new_engine :: "Renderer \<Rightarrow> engine"






section \<open>Reading the source of an animation (lottie-player.ts)\<close>

text \<open>
  JSON parsing, URL parsing, fetching and text encoding are external. \<open>'j\<close> is the type of
  parsed JSON values. \<open>JSON_parse\<close> and \<open>URL_new\<close> give None where the JavaScript throws,
  the fetches give None where the promise rejects (or the body is not JSON).
  \<open>to_text\<close> is the string conversion that \<open>TextEncoder.encode\<close> applies to an argument
  that is not a string.
\<close>

type_synonym bytes = "nat list"

record 'j parse_env =
  JSON_parse :: "string \<Rightarrow> 'j option"
  JSON_stringify :: "'j \<Rightarrow> string"
  to_text :: "'j \<Rightarrow> string"
  URL_new :: "string \<Rightarrow> string option"
  fetch_json :: "string \<Rightarrow> 'j option"
  fetch_buffer :: "string \<Rightarrow> bytes option"
  encode :: "string \<Rightarrow> bytes"

datatype load_error = LottieUrlError | FetchError | InvalidSrcType

text \<open>The argument \<open>src\<close>: a string, an ArrayBuffer, another object, or any other value.\<close>

datatype 'j source = Str string | Buf bytes | Obj 'j | Other

text \<open>What \<open>_parseJSON\<close> returns: the parsed value, or the text of the fetched JSON.\<close>

datatype 'j parsed = Parsed 'j | Text string

text \<open>
  Each function returns the list of the URLs it fetched, in order, and its result.
  \<open>_parseLottieFromURL\<close> is only called with a string, so its first check never fires.
\<close>

definition parseLottieFromURL :: "'j parse_env \<Rightarrow> string \<Rightarrow> string list \<times> (load_error + 'j)" where
  "parseLottieFromURL env url =
     (case URL_new env url of
        None \<Rightarrow> ([], Inl LottieUrlError)
      | Some href \<Rightarrow>
          (case fetch_json env href of
             None \<Rightarrow> ([href], Inl LottieUrlError)
           | Some json \<Rightarrow> ([href], Inr json)))"

definition parseJSON :: "'j parse_env \<Rightarrow> string \<Rightarrow> string list \<times> (load_error + 'j parsed)" where
  "parseJSON env data =
     (case JSON_parse env data of
        Some v \<Rightarrow> ([], Inr (Parsed v))
      | None \<Rightarrow>
          (case parseLottieFromURL env data of
             (fetched, Inl e) \<Rightarrow> (fetched, Inl e)
           | (fetched, Inr json) \<Rightarrow> (fetched, Inr (Text (JSON_stringify env json)))))"

definition encode_parsed :: "'j parse_env \<Rightarrow> 'j parsed \<Rightarrow> bytes" where
  "encode_parsed env d = (case d of Parsed v \<Rightarrow> encode env (to_text env v) | Text s \<Rightarrow> encode env s)"

definition parseSrc :: "'j parse_env \<Rightarrow> 'j source \<Rightarrow> FileType \<Rightarrow> string list \<times> (load_error + bytes)" where
  "parseSrc env s ft =
     (case s of
        Buf b \<Rightarrow> ([], Inr b)
      | Obj v \<Rightarrow> ([], Inr (encode env (JSON_stringify env v)))
      | Str data \<Rightarrow>
          (if ft = JSON \<or> ft = LOT then
             (case parseJSON env data of
                (fetched, Inl e) \<Rightarrow> (fetched, Inl e)
              | (fetched, Inr d) \<Rightarrow> (fetched, Inr (encode_parsed env d)))
           else
             (case fetch_buffer env data of
                None \<Rightarrow> ([data], Inl FetchError)
              | Some b \<Rightarrow> ([data], Inr b)))
      | Other \<Rightarrow> ([], Inl InvalidSrcType))"

text \<open>
  JSON values as \<open>JSON.parse\<close> yields them; a number is kept as the decimal text that
  JavaScript prints for it.
\<close>

datatype json =
    JNull
  | JBool bool
  | JNum string
  | JStr string
  | JArr "json list"
  | JObj "(string \<times> json) list"

text \<open>
  The string conversion of JavaScript (\<open>ToString\<close>), which \<open>TextEncoder.encode\<close>
  applies to an argument that is not a string: a string is itself, an array is its
  elements joined by commas (null elements as the empty string), and every other object
  is the text \<open>[object Object]\<close>.
\<close>

fun join_comma :: "string list \<Rightarrow> string" where
  "join_comma [] = []"
| "join_comma [x] = x"
| "join_comma (x # y # ys) = x @ '','' @ join_comma (y # ys)"

fun ToString :: "json \<Rightarrow> string" where
  "ToString JNull = ''null''"
| "ToString (JBool b) = (if b then ''true'' else ''false'')"
| "ToString (JNum t) = t"
| "ToString (JStr t) = t"
| "ToString (JArr xs) = join_comma (map (\<lambda>x. if x = JNull then [] else ToString x) xs)"
| "ToString (JObj kvs) = ''[object Object]''"

section \<open>The background worker (worker/lottie-worker.ts)\<close>

record viewport =
  vx :: real
  vy :: real
  vw :: real
  vh :: real

record CanvasInfo =
  width :: real
  height :: real
  devicePixelRatio :: "real option"
  viewportInfo :: "viewport option"

record RenderConfig =
  enableDevicePixelRatio :: "bool option"
  cfg_renderer :: "Renderer option"

text \<open>The commands sent to the worker and the responses it posts (message-types.ts).\<close>

datatype 'j WorkerMessage =
    INIT "string option" "RenderConfig option" "bool option" bool
  | LOAD "'j source" FileType
  | PLAY
  | PAUSE
  | STOP
  | SEEK real
  | RESIZE CanvasInfo
  | SET_SPEED real
  | UPDATE_CANVAS_INFO CanvasInfo

text \<open>
  \<open>FRAME frameNumber hasImageData useOffscreenCanvas\<close>; \<open>LOADED totalFrame size\<close>;
  \<open>ERROR message\<close>.
\<close>

datatype WorkerResponse =
    READY
  | LOADED real "real \<times> real"
  | FRAME real bool bool
  | ERROR string
  | COMPLETE

text \<open>
  The module-level variables of the worker. \<open>w_TVG\<close> is the engine instance, kept as
  the renderer it was created with; \<open>animationFrame\<close> tells whether the interval timer is
  set; \<open>posted\<close> lists the responses posted so far.
\<close>

record worker =
  w_module :: bool
  w_moduleRequested :: bool
  w_TVG :: "Renderer option"
  isInitialized :: bool
  currentCanvasInfo :: "CanvasInfo option"
  isPlaying :: bool
  animationStartTime :: real
  animationSpeed :: real
  totalFrames :: real
  duration :: real
  animationFrame :: bool
  useOffscreenCanvas :: bool
  offscreenCanvas :: bool
  offscreenContext :: bool
  w_initStatus :: InitStatus
  posted :: "WorkerResponse list"

text \<open>
  What a step of the worker meets outside: the clock, whether the WASM module loads,
  whether the canvas gives a 2d context, whether the two constructor calls of the engine
  return, the answers of the engine to \<open>load\<close>, \<open>totalFrame\<close>, \<open>duration\<close>, \<open>size\<close>,
  \<open>update\<close> and \<open>render\<close>, and whether a call inside the try block of \<open>renderFrame\<close>
  throws.
\<close>

record world =
  clock :: real
  wasm_ok :: bool
  context_ok :: bool
  ctor_empty_ok :: bool
  ctor_null_ok :: bool
  load_ok :: bool
  loaded_totalFrame :: real
  loaded_duration :: real
  loaded_size :: "real \<times> real"
  update_ok :: bool
  buffer_length :: nat
  engine_throws :: bool

definition postMessage :: "WorkerResponse \<Rightarrow> worker \<Rightarrow> worker" where
  "postMessage r w = w\<lparr>posted := posted w @ [r]\<rparr>"

text \<open>The worker's \<open>_initModule(engine)\<close>: it returns for SW and GL and throws for WG.\<close>

definition worker_initModule :: "Renderer \<Rightarrow> worker \<Rightarrow> worker outcome" where
  "worker_initModule engine w =
     (if engine \<noteq> WG then Returns w else Throws (w\<lparr>w_initStatus := FAILED\<rparr>))"

text \<open>
  \<open>initializeWorker(wasmUrl, _renderConfig, useOffscreenCanvas, offscreenCanvas)\<close>;
  the last argument tells whether a canvas was passed. Every throw inside ends in the
  catch clause, which posts ERROR. A worker whose module was requested and never arrived
  waits in the poll loop: the handler posts nothing.
\<close>

definition initializeWorker ::
  "world \<Rightarrow> string option \<Rightarrow> RenderConfig option \<Rightarrow> bool option \<Rightarrow> bool \<Rightarrow> worker \<Rightarrow> worker" where
  "initializeWorker wd wasmUrl renderConfig useOffscreen canvas w =
     (let failed = postMessage (ERROR ''Worker initialization failed'');
          w1 = w\<lparr>useOffscreenCanvas := (case useOffscreen of None \<Rightarrow> False | Some b \<Rightarrow> b)\<rparr>;
          w2 = (if useOffscreenCanvas w1 \<and> canvas
                then w1\<lparr>offscreenCanvas := True, offscreenContext := context_ok wd\<rparr> else w1)
      in if w_moduleRequested w2 \<and> \<not> w_module w2 then w2
         else if \<not> w_module w2 \<and> \<not> wasm_ok wd then failed (w2\<lparr>w_moduleRequested := True\<rparr>)
         else
           (let w3 = (if \<not> w_module w2 then w2\<lparr>w_moduleRequested := True, w_module := True\<rparr>
                      else w2);
                engine = SW
            in case worker_initModule engine w3 of
                 Throws w4 \<Rightarrow> failed w4
               | Returns w4 \<Rightarrow>
                   if w_initStatus w4 = FAILED then failed w4
                   else if ctor_empty_ok wd \<or> ctor_null_ok wd then
                     postMessage READY (w4\<lparr>w_TVG := Some engine, isInitialized := True\<rparr>)
                   else failed w4))"

text \<open>
  \<open>loadLottieData(src, fileType)\<close>. The worker reads \<open>src\<close> with the same switch as
  \<open>_parseSrc\<close>; every throw ends in the catch clause, which posts ERROR.
\<close>

definition loadLottieData :: "world \<Rightarrow> 'j parse_env \<Rightarrow> 'j source \<Rightarrow> FileType \<Rightarrow> worker \<Rightarrow> worker" where
  "loadLottieData wd env s ft w =
     (let failed = postMessage (ERROR ''Failed to load Lottie data'') in
      if \<not> isInitialized w \<or> w_TVG w = None then failed w
      else case snd (parseSrc env s ft) of
        Inl e \<Rightarrow> failed w
      | Inr data \<Rightarrow>
          if \<not> load_ok wd then failed w
          else
            (let w1 = w\<lparr>totalFrames := loaded_totalFrame wd, duration := loaded_duration wd\<rparr>
             in postMessage (LOADED (totalFrames w1) (loaded_size wd)) w1))"

definition startWorkerAnimationLoop :: "world \<Rightarrow> worker \<Rightarrow> worker" where
  "startWorkerAnimationLoop wd w =
     (if isPlaying w then w
      else w\<lparr>isPlaying := True, animationStartTime := clock wd, animationFrame := True\<rparr>)"

definition stopWorkerAnimationLoop :: "worker \<Rightarrow> worker" where
  "stopWorkerAnimationLoop w =
     (let w1 = w\<lparr>isPlaying := False\<rparr> in
      if animationFrame w1 then w1\<lparr>animationFrame := False\<rparr> else w1)"

definition renderFrame :: "world \<Rightarrow> real \<Rightarrow> worker \<Rightarrow> worker" where
  "renderFrame wd frameNumber w =
     (let failed = postMessage (ERROR ''Frame rendering failed'') in
      if \<not> isInitialized w \<or> w_TVG w = None then w
      else if useOffscreenCanvas w \<and> offscreenCanvas w \<and> offscreenContext w then
        (if engine_throws wd then failed w
         else if \<not> update_ok wd then w
         else postMessage (FRAME frameNumber False True) w)
      else if currentCanvasInfo w = None then w
      else if engine_throws wd then failed w
      else if \<not> update_ok wd then w
      else if buffer_length wd > 0 then postMessage (FRAME frameNumber True False) w
      else w)"

text \<open>
  The remainder operator \<open>%\<close> of JavaScript on numbers: the quotient is truncated
  towards zero. (For a divisor 0 JavaScript gives NaN, which the model does not have.)
\<close>

definition js_rem :: "real \<Rightarrow> real \<Rightarrow> real" where
  "js_rem a b = a - b * of_int (if 0 \<le> a / b then \<lfloor>a / b\<rfloor> else \<lceil>a / b\<rceil>)"

text \<open>The frame number an interval tick computes from the clock, before the wrap.\<close>

definition tick_frameNumber :: "world \<Rightarrow> worker \<Rightarrow> real" where
  "tick_frameNumber wd w =
     (let elapsed = (clock wd - animationStartTime w) / 1000 * animationSpeed w
      in (elapsed / duration w) * totalFrames w)"

text \<open>
  The callback of the interval timer set by \<open>startWorkerAnimationLoop\<close>; it runs only
  while the timer is set.
\<close>

definition intervalTick :: "world \<Rightarrow> worker \<Rightarrow> worker" where
  "intervalTick wd w =
     (if \<not> animationFrame w then w
      else if \<not> isPlaying w \<or> \<not> isInitialized w \<or> w_TVG w = None \<or> currentCanvasInfo w = None
        then w
      else
        (let frameNumber = tick_frameNumber wd w in
         if frameNumber \<ge> totalFrames w then
           renderFrame wd (of_int \<lfloor>js_rem frameNumber (totalFrames w)\<rfloor>)
             (w\<lparr>animationStartTime := clock wd\<rparr>)
         else renderFrame wd (of_int \<lfloor>frameNumber\<rfloor>) w))"

text \<open>The message handler of the worker.\<close>

definition onmessage :: "world \<Rightarrow> 'j parse_env \<Rightarrow> 'j WorkerMessage \<Rightarrow> worker \<Rightarrow> worker" where
  "onmessage wd env m w =
     (case m of
        INIT wasmUrl renderConfig useOffscreen canvas \<Rightarrow>
          initializeWorker wd wasmUrl renderConfig useOffscreen canvas w
      | LOAD s ft \<Rightarrow> loadLottieData wd env s ft w
      | PLAY \<Rightarrow> startWorkerAnimationLoop wd w
      | PAUSE \<Rightarrow> stopWorkerAnimationLoop w
      | STOP \<Rightarrow> stopWorkerAnimationLoop w
      | SEEK f \<Rightarrow> renderFrame wd f w
      | RESIZE info \<Rightarrow> w\<lparr>currentCanvasInfo := Some info\<rparr>
      | SET_SPEED s \<Rightarrow> w\<lparr>animationSpeed := s\<rparr>
      | UPDATE_CANVAS_INFO info \<Rightarrow> w\<lparr>currentCanvasInfo := Some info\<rparr>)"

text \<open>
  A run of the worker: each step is a command or a tick of the interval timer, with the
  world it meets. Each step runs to its end before the next.
\<close>

datatype 'j worker_input = Message "'j WorkerMessage" | IntervalTick

definition worker_step :: "'j parse_env \<Rightarrow> world \<times> 'j worker_input \<Rightarrow> worker \<Rightarrow> worker" where
  "worker_step env i w =
     (case snd i of
        Message m \<Rightarrow> onmessage (fst i) env m w
      | IntervalTick \<Rightarrow> intervalTick (fst i) w)"

fun worker_run :: "'j parse_env \<Rightarrow> (world \<times> 'j worker_input) list \<Rightarrow> worker \<Rightarrow> worker" where
  "worker_run env [] w = w"
| "worker_run env (i # is) w = worker_run env is (worker_step env i w)"

text \<open>The worker when its script has been loaded: the initial values of its variables.\<close>

definition worker_start :: worker where
  "worker_start =
     \<lparr>w_module = False, w_moduleRequested = False, w_TVG = None, isInitialized = False,
      currentCanvasInfo = None, isPlaying = False, animationStartTime = 0,
      animationSpeed = 1, totalFrames = 60, duration = 2, animationFrame = False,
      useOffscreenCanvas = False, offscreenCanvas = False, offscreenContext = False,
      w_initStatus = IDLE, posted = []\<rparr>"

section \<open>The player that delegates to the worker (class LottieWorkerPlayer)\<close>

text \<open>
  The fields of the class that its message handler and \<open>play\<close> read or write, the
  commands sent to the worker and the events dispatched. \<open>wp_worker\<close> tells whether the
  worker exists (\<open>_sendToWorker\<close> sends nothing otherwise).
\<close>

record 'j WorkerPlayer =
  wp_src :: "string option"
  wp_fileType :: FileType
  wp_autoPlay :: bool
  wp_count :: "real option"
  wp_loop :: bool
  wp_direction :: int
  wp_mode :: PlayMode
  wp_totalFrame :: real
  wp_currentFrame :: real
  wp_currentState :: PlayerState
  wp_animationSize :: "real \<times> real"
  wp_worker :: bool
  wp_sent :: "'j WorkerMessage list"
  wp_events :: "PlayerEvent list"

definition sendToWorker :: "'j WorkerMessage \<Rightarrow> 'j WorkerPlayer \<Rightarrow> 'j WorkerPlayer" where
  "sendToWorker m p = (if wp_worker p then p\<lparr>wp_sent := wp_sent p @ [m]\<rparr> else p)"

definition wp_dispatch :: "PlayerEvent \<Rightarrow> 'j WorkerPlayer \<Rightarrow> 'j WorkerPlayer" where
  "wp_dispatch ev p = p\<lparr>wp_events := wp_events p @ [ev]\<rparr>"

definition wp_play :: "'j WorkerPlayer \<Rightarrow> 'j WorkerPlayer" where
  "wp_play p =
     (if wp_currentState p \<noteq> Stopped \<and> wp_currentState p \<noteq> Paused then p
      else if wp_totalFrame p < 1 then p
      else wp_dispatch Ev_Play (sendToWorker PLAY (p\<lparr>wp_currentState := Playing\<rparr>)))"

text \<open>\<open>load(src, fileType)\<close> for a string \<open>src\<close>, as the handler of READY calls it.\<close>

definition wp_load :: "string \<Rightarrow> FileType \<Rightarrow> 'j WorkerPlayer \<Rightarrow> 'j WorkerPlayer" where
  "wp_load s ft p =
     sendToWorker (LOAD (Str s) ft)
       (p\<lparr>wp_src := Some s, wp_fileType := ft, wp_currentState := Loading\<rparr>)"

text \<open>
  \<open>_handleWorkerMessage(event)\<close>; \<open>info\<close> is the canvas geometry that
  \<open>_calculateCanvasInfo\<close> reads from the page. An empty \<open>src\<close> is falsy.
\<close>

definition handleWorkerMessage :: "CanvasInfo \<Rightarrow> WorkerResponse \<Rightarrow> 'j WorkerPlayer \<Rightarrow> 'j WorkerPlayer" where
  "handleWorkerMessage info r p =
     (case r of
        READY \<Rightarrow>
          (let p1 = sendToWorker (UPDATE_CANVAS_INFO info) p in
           case wp_src p1 of
             None \<Rightarrow> p1
           | Some s \<Rightarrow> if s = [] then p1 else wp_load s (wp_fileType p1) p1)
      | LOADED tf sz \<Rightarrow>
          (let p1 = wp_dispatch Ev_Load
                      (p\<lparr>wp_totalFrame := tf, wp_animationSize := sz, wp_currentState := Stopped\<rparr>)
           in if wp_autoPlay p1 then wp_play p1 else p1)
      | FRAME n img off \<Rightarrow> wp_dispatch (Ev_Frame n) (p\<lparr>wp_currentFrame := n\<rparr>)
      | ERROR msg \<Rightarrow> wp_dispatch (Ev_Error (Some msg)) (p\<lparr>wp_currentState := Error\<rparr>)
      | COMPLETE \<Rightarrow> wp_dispatch Ev_Complete (p\<lparr>wp_currentState := Stopped\<rparr>))"

section \<open>Concrete players, workers and environments\<close>

text \<open>
  A concrete player: the field defaults of the class, with a loaded animation of 60
  frames that lasts 2 seconds, visible on screen.
\<close>

definition sample_engine :: engine where
  "sample_engine = \<lparr>tvg_totalFrame = 60, tvg_duration = 2, tvg_frame = (\<lambda>f. True)\<rparr>"

definition sample_player :: LottiePlayer where
  "sample_player =
     \<lparr>src = None, fileType = JSON, renderer = None, speed = 1, autoPlay = False,
      count = None, loop = False, direction = 1, mode = Normal, intermission = 1,
      totalFrame = 60, currentFrame = 0, currentState = Stopped,
      TVG = Some sample_engine, beginTime = 0, counter = 1, timer = False,
      observable = True, actualRenderer = Some SW, trace = []\<rparr>"

definition playing_player :: LottiePlayer where
  "playing_player = sample_player\<lparr>currentState := Playing\<rparr>"

text \<open>A player that waits for its first \<open>_init\<close>, asking for the WebGPU renderer.\<close>

definition fresh_player :: LottiePlayer where
  "fresh_player =
     sample_player\<lparr>renderer := Some WG, currentState := Loading, TVG := None, timer := True,
                    totalFrame := 0, actualRenderer := None\<rparr>"

definition fresh_globals :: globals where
  "fresh_globals = \<lparr>module_loaded = False, moduleRequested = False, initStatus = IDLE\<rparr>"

text \<open>The module loads; \<open>_module.init()\<close> answers 2 (pending), then 1 (failure).\<close>

definition failing_env :: init_env where
  "failing_env =
     \<lparr>module_ok = True, polls = [], init_results = [2, 1], new_engine = (\<lambda>r. sample_engine)\<rparr>"

text \<open>The module loads; \<open>_module.init()\<close> answers 2 (pending), then 0 (success).\<close>

definition working_env :: init_env where
  "working_env =
     \<lparr>module_ok = True, polls = [], init_results = [2, 0], new_engine = (\<lambda>r. sample_engine)\<rparr>"

text \<open>
  A parsing environment over JSON values kept as their text: only \<open>{}\<close> parses, only one
  URL is well formed, and an object converts to the string \<open>[object Object]\<close>.
\<close>

definition sample_parse_env :: "string parse_env" where
  "sample_parse_env =
     \<lparr>JSON_parse = (\<lambda>s. if s = ''{}'' then Some ''{}'' else None),
      JSON_stringify = (\<lambda>v. v),
      to_text = (\<lambda>v. ''[object Object]''),
      URL_new = (\<lambda>s. if s = ''https://host/a.json'' then Some s else None),
      fetch_json = (\<lambda>u. Some ''{}''),
      fetch_buffer = (\<lambda>u. Some [1, 2, 3]),
      encode = map of_char\<rparr>"

text \<open>
  A parsing environment over \<open>json\<close>: the text \<open>{}\<close> parses to the empty object, which
  is the only value the environment has to stringify; the string conversion is
  \<open>ToString\<close> and the encoding is that of ASCII text.
\<close>

definition js_parse_env :: "json parse_env" where
  "js_parse_env =
     \<lparr>JSON_parse = (\<lambda>s. if s = ''{}'' then Some (JObj []) else None),
      JSON_stringify = (\<lambda>v. ''{}''),
      to_text = ToString,
      URL_new = (\<lambda>s. if s = ''https://host/a.json'' then Some s else None),
      fetch_json = (\<lambda>u. Some (JObj [])),
      fetch_buffer = (\<lambda>u. Some [1, 2, 3]),
      encode = map of_char\<rparr>"

definition sample_world :: world where
  "sample_world =
     \<lparr>clock = 2500, wasm_ok = True, context_ok = True, ctor_empty_ok = True,
      ctor_null_ok = True, load_ok = True, loaded_totalFrame = 60, loaded_duration = 2,
      loaded_size = (100, 100), update_ok = True, buffer_length = 160000,
      engine_throws = False\<rparr>"

definition sample_canvas :: CanvasInfo where
  "sample_canvas = \<lparr>width = 200, height = 200, devicePixelRatio = None, viewportInfo = None\<rparr>"

text \<open>A worker that plays a loaded animation of 60 frames and 2 seconds, started at time 0.\<close>

definition playing_worker :: worker where
  "playing_worker =
     worker_start\<lparr>w_module := True, w_moduleRequested := True, w_TVG := Some SW,
                   isInitialized := True, currentCanvasInfo := Some sample_canvas,
                   isPlaying := True, animationFrame := True\<rparr>"

text \<open>
  A session of the worker from its start: initialisation, canvas geometry, the load of
  an inline animation, play, and one tick of the timer.
\<close>

definition sample_session :: "(world \<times> string worker_input) list" where
  "sample_session =
     [(sample_world, Message (INIT None None None False)),
      (sample_world, Message (UPDATE_CANVAS_INFO sample_canvas)),
      (sample_world, Message (LOAD (Str ''{}'') JSON)),
      (sample_world, Message PLAY),
      (sample_world, IntervalTick)]"

definition sample_worker_player :: "string WorkerPlayer" where
  "sample_worker_player =
     \<lparr>wp_src = None, wp_fileType = JSON, wp_autoPlay = False, wp_count = None,
      wp_loop = False, wp_direction = 1, wp_mode = Normal, wp_totalFrame = 60,
      wp_currentFrame = 0, wp_currentState = Playing, wp_animationSize = (100, 100),
      wp_worker = True, wp_sent = [], wp_events = []\<rparr>"


section \<open>Facts about the worker used by several theorems\<close>

lemma initializeWorker_posted:
  "posted (initializeWorker wd url cfg uo oc w) = posted w \<or>
   posted (initializeWorker wd url cfg uo oc w) = posted w @ [READY] \<or>
   posted (initializeWorker wd url cfg uo oc w) = posted w @ [ERROR ''Worker initialization failed'']"
  by (simp add: initializeWorker_def worker_initModule_def postMessage_def Let_def)

lemma loadLottieData_posted:
  "posted (loadLottieData wd env s ft w) = posted w @ [ERROR ''Failed to load Lottie data''] \<or>
   posted (loadLottieData wd env s ft w) = posted w @ [LOADED (loaded_totalFrame wd) (loaded_size wd)]"
  by (simp add: loadLottieData_def postMessage_def Let_def split: sum.splits)

lemma renderFrame_posted:
  "posted (renderFrame wd f w) = posted w \<or>
   posted (renderFrame wd f w) = posted w @ [ERROR ''Frame rendering failed''] \<or>
   posted (renderFrame wd f w) = posted w @ [FRAME f False True] \<or>
   posted (renderFrame wd f w) = posted w @ [FRAME f True False]"
  by (simp add: renderFrame_def postMessage_def Let_def)

lemma renderFrame_no_complete:
  "COMPLETE \<in> set (posted (renderFrame wd f w)) \<Longrightarrow> COMPLETE \<in> set (posted w)"
  using renderFrame_posted [of wd f w] by auto

lemma intervalTick_no_complete:
  "COMPLETE \<in> set (posted (intervalTick wd w)) \<Longrightarrow> COMPLETE \<in> set (posted w)"
  by (auto simp: intervalTick_def Let_def dest!: renderFrame_no_complete split: if_splits)

lemma onmessage_no_complete:
  "COMPLETE \<in> set (posted (onmessage wd env m w)) \<Longrightarrow> COMPLETE \<in> set (posted w)"
proof (cases m)
  case (INIT url cfg uo oc)
  then show "COMPLETE \<in> set (posted (onmessage wd env m w)) \<Longrightarrow> COMPLETE \<in> set (posted w)"
    using initializeWorker_posted [of wd url cfg uo oc w] by (auto simp: onmessage_def)
next
  case (LOAD s ft)
  then show "COMPLETE \<in> set (posted (onmessage wd env m w)) \<Longrightarrow> COMPLETE \<in> set (posted w)"
    using loadLottieData_posted [of wd env s ft w] by (auto simp: onmessage_def)
next
  case (SEEK f)
  then show "COMPLETE \<in> set (posted (onmessage wd env m w)) \<Longrightarrow> COMPLETE \<in> set (posted w)"
    by (auto simp: onmessage_def dest: renderFrame_no_complete)
qed (auto simp: onmessage_def startWorkerAnimationLoop_def stopWorkerAnimationLoop_def Let_def
      split: if_splits)

lemma worker_step_no_complete:
  "COMPLETE \<in> set (posted (worker_step env i w)) \<Longrightarrow> COMPLETE \<in> set (posted w)"
  by (auto simp: worker_step_def split: worker_input.splits
      dest: onmessage_no_complete intervalTick_no_complete)

lemma worker_run_no_complete:
  "COMPLETE \<in> set (posted (worker_run env inputs w)) \<Longrightarrow> COMPLETE \<in> set (posted w)"
proof (induction inputs arbitrary: w)
  case Nil
  then show ?case by simp
next
  case (Cons i inputs)
  then show ?case by (auto dest: worker_step_no_complete)
qed

text \<open>For a positive divisor and a dividend at least as large, \<open>%\<close> is the modulo.\<close>

lemma js_rem_wrap:
  assumes "0 < b" and "b \<le> a"
  shows "js_rem a b = a - b * of_int \<lfloor>a / b\<rfloor>" and "0 \<le> js_rem a b" and "js_rem a b < b"
proof -
  from assms have q: "0 \<le> a / b" by simp
  then show e: "js_rem a b = a - b * of_int \<lfloor>a / b\<rfloor>" by (simp add: js_rem_def)
  have ab: "b * (a / b) = a" using assms by simp
  have "b * of_int \<lfloor>a / b\<rfloor> \<le> b * (a / b)"
    using assms by (intro mult_left_mono) simp_all
  with ab have "b * of_int \<lfloor>a / b\<rfloor> \<le> a" by simp
  with e show "0 \<le> js_rem a b" by simp
  have "a / b < of_int \<lfloor>a / b\<rfloor> + 1" by linarith
  with assms have "b * (a / b) < b * (of_int \<lfloor>a / b\<rfloor> + 1)"
    by (intro mult_strict_left_mono) simp_all
  with ab have "a < b * (of_int \<lfloor>a / b\<rfloor> + 1)" by simp
  with e show "js_rem a b < b" by (simp add: algebra_simps)
qed

lemma handleWorkerMessage_stopped:
  "wp_currentState p \<noteq> Stopped \<Longrightarrow> wp_currentState (handleWorkerMessage info r p) = Stopped
   \<Longrightarrow> r = COMPLETE \<or> (\<exists>tf sz. r = LOADED tf sz)"
  by (cases r) (auto simp: handleWorkerMessage_def sendToWorker_def wp_load_def wp_dispatch_def
      Let_def split: option.splits if_splits)

lemma w_TVG_postMessage [simp]: "w_TVG (postMessage r w) = w_TVG w"
  by (simp add: postMessage_def)

lemma w_TVG_initializeWorker:
  "w_TVG (initializeWorker wd url cfg uo oc w) = w_TVG w \<or>
   w_TVG (initializeWorker wd url cfg uo oc w) = Some SW"
  by (simp add: initializeWorker_def worker_initModule_def Let_def)

lemma w_TVG_loadLottieData [simp]: "w_TVG (loadLottieData wd env s ft w) = w_TVG w"
  by (simp add: loadLottieData_def Let_def split: sum.splits)

lemma w_TVG_renderFrame [simp]: "w_TVG (renderFrame wd f w) = w_TVG w"
  by (simp add: renderFrame_def Let_def)

lemma w_TVG_intervalTick [simp]: "w_TVG (intervalTick wd w) = w_TVG w"
  by (simp add: intervalTick_def Let_def)

lemma w_TVG_start [simp]: "w_TVG (startWorkerAnimationLoop wd w) = w_TVG w"
  by (simp add: startWorkerAnimationLoop_def)

lemma w_TVG_stop [simp]: "w_TVG (stopWorkerAnimationLoop w) = w_TVG w"
  by (simp add: stopWorkerAnimationLoop_def Let_def)

lemma w_TVG_onmessage:
  "w_TVG (onmessage wd env m w) = w_TVG w \<or> w_TVG (onmessage wd env m w) = Some SW"
proof (cases m)
  case (INIT url cfg uo oc)
  then show ?thesis using w_TVG_initializeWorker [of wd url cfg uo oc w] by (simp add: onmessage_def)
qed (simp_all add: onmessage_def)

lemma w_TVG_worker_step:
  "w_TVG (worker_step env i w) = w_TVG w \<or> w_TVG (worker_step env i w) = Some SW"
  using w_TVG_onmessage [of "fst i" env _ w]
  by (simp add: worker_step_def split: worker_input.splits)

lemma w_TVG_worker_run:
  "w_TVG w = None \<or> w_TVG w = Some SW \<Longrightarrow>
   w_TVG (worker_run env inputs w) = None \<or> w_TVG (worker_run env inputs w) = Some SW"
proof (induction inputs arbitrary: w)
  case Nil
  then show ?case by simp
next
  case (Cons i inputs)
  have "w_TVG (worker_step env i w) = None \<or> w_TVG (worker_step env i w) = Some SW"
    using w_TVG_worker_step [of env i w] Cons.prems by auto
  then show ?case using Cons.IH by simp
qed


lemma totalCount_currentFrame [simp]: "totalCount (p\<lparr>currentFrame := x\<rparr>) = totalCount p"
  by (simp add: totalCount_def)

lemmas player_defs =
  stop_def seek_sync_def seek_def frame_def update_def pause_def freeze_def play_def
  render_def dispatchEvent_def emit_def observerCallback_def clock_frame_def totalCount_def
  truthy_def new_effects_def Let_def

lemmas sample_defs =
  sample_player_def sample_engine_def playing_player_def fresh_player_def fresh_globals_def
  failing_env_def working_env_def

lemmas worker_defs =
  onmessage_def initializeWorker_def worker_initModule_def loadLottieData_def
  startWorkerAnimationLoop_def stopWorkerAnimationLoop_def renderFrame_def intervalTick_def
  tick_frameNumber_def js_rem_def worker_step_def postMessage_def Let_def

lemmas worker_sample_defs =
  playing_worker_def worker_start_def sample_world_def sample_canvas_def sample_session_def
  sample_worker_player_def

section \<open>Renderer fallback\<close>



section \<open>The frame clock\<close>

text \<open>
  Claim C2. On a tick in state Playing (with a non-zero duration), \<open>_update\<close> computes
  the frame as (now - beginTimestamp) / duration * totalFrame * speed, replaced by
  totalFrame minus that value when the direction is backward. When the leg is not
  complete, the tick stores that frame, dispatches it in a frame event and passes it to
  the engine. The tick takes the completion branch (it waits the intermission to loop,
  or dispatches complete) exactly when the frame is at least totalFrame going forward,
  or at most 0 going backward.
\<close>

theorem update_clock_frame:
  assumes "currentState p = Playing" and "TVG p = Some tvg" and "tvg_duration tvg \<noteq> 0"
  shows "let f0 = (now / 1000 - beginTime p) / tvg_duration tvg * totalFrame p * speed p;
             f = (if direction p = - 1 then totalFrame p - f0 else f0);
             completed = ((direction p = 1 \<and> f \<ge> totalFrame p) \<or> (direction p = - 1 \<and> f \<le> 0))
         in \<exists>p' b. update now now' p = Returns (p', b) \<and>
              (\<not> completed \<longrightarrow>
                 p' = p\<lparr>currentFrame := f,
                        trace := trace p @ [Dispatch (Ev_Frame f), TVG_frame f]\<rparr> \<and>
                 b = tvg_frame tvg f) \<and>
              (completed \<longleftrightarrow>
                 new_effects p p' = [Wait (intermission p)] \<or>
                 new_effects p p' = [Dispatch Ev_Complete, Dispatch (Ev_Frame f), TVG_frame f])"
  using assms
  by (auto simp: update_def clock_frame_def play_def dispatchEvent_def emit_def
      new_effects_def Let_def)

text \<open>
  The theorem one second into the sample animation (frame 30 of 60), and at its end
  (frame 60: the leg is complete, and without loop or count the player stops).
\<close>

theorem update_clock_frame_witness:
  "currentState playing_player = Playing \<and> TVG playing_player = Some sample_engine \<and>
   tvg_duration sample_engine \<noteq> 0 \<and>
   update 1000 1000 playing_player =
     Returns (playing_player\<lparr>currentFrame := 30,
                trace := [Dispatch (Ev_Frame 30), TVG_frame 30]\<rparr>, True) \<and>
   update 2000 2000 playing_player =
     Returns (playing_player\<lparr>currentFrame := 60, currentState := Stopped,
                trace := [Dispatch Ev_Complete, Dispatch (Ev_Frame 60), TVG_frame 60]\<rparr>, True)"
  using update_clock_frame [where p = playing_player and tvg = sample_engine
      and now = 1000 and now' = 1000]
    update_clock_frame [where p = playing_player and tvg = sample_engine
      and now = 2000 and now' = 2000]
  by (auto simp: sample_defs player_defs)

text \<open>
  Claim C3. The repeat limit is repeatCount * 2 in Bounce mode and repeatCount otherwise
  (0 when no count is configured). When a direction leg is complete and the clock
  continues (loop is set, or the limit is not 0 and the counter is below it): in Bounce
  mode the direction is flipped and the frame is reset to the boundary of the new
  direction (0 if now forward, totalFrame if now backward); then the counter is
  incremented, and only when a non-zero count is configured; the tick waits the
  intermission and stays in state Playing. When the leg is complete and the clock does
  not continue, the tick dispatches complete and the state becomes Stopped.
\<close>

theorem update_loop_leg:
  "totalCount p =
     (case count p of None \<Rightarrow> 0 | Some c \<Rightarrow> if mode p = Bounce then c * 2 else c) \<and>
   (currentState p = Playing \<and> TVG p = Some tvg \<and> tvg_duration tvg \<noteq> 0 \<and>
    ((direction p = 1 \<and> clock_frame tvg now p \<ge> totalFrame p) \<or>
     (direction p = - 1 \<and> clock_frame tvg now p \<le> 0))
    \<longrightarrow>
      (if loop p \<or> (totalCount p \<noteq> 0 \<and> counter p < totalCount p) then
         (\<exists>p'. update now now' p = Returns (p', True) \<and>
            (mode p = Bounce \<longrightarrow>
               direction p' = (if direction p = 1 then - 1 else 1) \<and>
               currentFrame p' = (if direction p' = 1 then 0 else totalFrame p)) \<and>
            (mode p \<noteq> Bounce \<longrightarrow>
               direction p' = direction p \<and> currentFrame p' = clock_frame tvg now p) \<and>
            counter p' =
              (if count p = None \<or> count p = Some 0 then counter p else counter p + 1) \<and>
            currentState p' = Playing \<and>
            new_effects p p' = [Wait (intermission p)])
       else
         (\<exists>p' b. update now now' p = Returns (p', b) \<and>
            currentState p' = Stopped \<and> counter p' = counter p \<and>
            direction p' = direction p \<and>
            new_effects p p' =
              [Dispatch Ev_Complete, Dispatch (Ev_Frame (clock_frame tvg now p)),
               TVG_frame (clock_frame tvg now p)])))"
proof (intro conjI impI)
  show "totalCount p =
     (case count p of None \<Rightarrow> 0 | Some c \<Rightarrow> if mode p = Bounce then c * 2 else c)"
    by (simp add: totalCount_def truthy_def split: option.splits)
next
  assume a: "currentState p = Playing \<and> TVG p = Some tvg \<and> tvg_duration tvg \<noteq> 0 \<and>
    ((direction p = 1 \<and> clock_frame tvg now p \<ge> totalFrame p) \<or>
     (direction p = - 1 \<and> clock_frame tvg now p \<le> 0))"
  show "if loop p \<or> (totalCount p \<noteq> 0 \<and> counter p < totalCount p) then
         (\<exists>p'. update now now' p = Returns (p', True) \<and>
            (mode p = Bounce \<longrightarrow>
               direction p' = (if direction p = 1 then - 1 else 1) \<and>
               currentFrame p' = (if direction p' = 1 then 0 else totalFrame p)) \<and>
            (mode p \<noteq> Bounce \<longrightarrow>
               direction p' = direction p \<and> currentFrame p' = clock_frame tvg now p) \<and>
            counter p' =
              (if count p = None \<or> count p = Some 0 then counter p else counter p + 1) \<and>
            currentState p' = Playing \<and>
            new_effects p p' = [Wait (intermission p)])
       else
         (\<exists>p' b. update now now' p = Returns (p', b) \<and>
            currentState p' = Stopped \<and> counter p' = counter p \<and>
            direction p' = direction p \<and>
            new_effects p p' =
              [Dispatch Ev_Complete, Dispatch (Ev_Frame (clock_frame tvg now p)),
               TVG_frame (clock_frame tvg now p)])"
  proof (cases "loop p \<or> (totalCount p \<noteq> 0 \<and> counter p < totalCount p)")
    case True
    with a show ?thesis
      by (auto simp: update_def play_def dispatchEvent_def emit_def new_effects_def
          totalCount_def truthy_def Let_def split: option.splits)
  next
    case False
    with a show ?thesis
      by (auto simp: update_def dispatchEvent_def emit_def new_effects_def Let_def)
  qed
qed

text \<open>
  The theorem at the end of the first forward leg of a bounce with count 2 (the limit is
  4, the direction turns backward at frame 60 and the counter goes from 1 to 2), and at
  the end of the fourth leg (the counter has reached the limit: the player stops).
\<close>

theorem update_loop_leg_witness:
  "totalCount (playing_player\<lparr>count := Some 2, mode := Bounce\<rparr>) = 4 \<and>
   clock_frame sample_engine 2000 (playing_player\<lparr>count := Some 2, mode := Bounce\<rparr>) = 60 \<and>
   update 2000 2001 (playing_player\<lparr>count := Some 2, mode := Bounce\<rparr>) =
     Returns (playing_player\<lparr>count := Some 2, mode := Bounce, direction := - 1,
                currentFrame := 60, counter := 2, beginTime := 2001 / 1000,
                trace := [Wait 1]\<rparr>, True) \<and>
   update 2000 2001
       (playing_player\<lparr>count := Some 2, mode := Bounce, direction := - 1, counter := 4\<rparr>) =
     Returns (playing_player\<lparr>count := Some 2, mode := Bounce, direction := - 1, counter := 4,
                currentFrame := 0, currentState := Stopped,
                trace := [Dispatch Ev_Complete, Dispatch (Ev_Frame 0), TVG_frame 0]\<rparr>, True)"
  using update_loop_leg [where p = "playing_player\<lparr>count := Some 2, mode := Bounce\<rparr>"
      and tvg = sample_engine and now = 2000 and now' = 2001]
    update_loop_leg [where p = "playing_player\<lparr>count := Some 2, mode := Bounce,
        direction := - 1, counter := 4\<rparr>"
      and tvg = sample_engine and now = 2000 and now' = 2001]
  by (auto simp: sample_defs player_defs)

section \<open>Commands\<close>

text \<open>
  Claim C4, as stated, fails: after \<open>seek(30)\<close> the state is Paused, and a \<open>play()\<close>
  at time 5000 followed by a tick at the same time renders frame 0, not frame 30.
\<close>

theorem seek_play_resume_counterexample:
  "currentState (state_of (seek 0 30 sample_player)) = Paused \<and>
   currentFrame (fst (state_of (update 5000 5000
      (state_of (play 5000 (state_of (seek 0 30 sample_player))))))) = 0 \<and>
   currentFrame (fst (state_of (update 5000 5000
      (state_of (play 5000 (state_of (seek 0 30 sample_player))))))) \<noteq> 30"
  by (simp add: sample_defs player_defs)

text \<open>
  Claim C4, amended. For every prior player state, \<open>seek(f)\<close> forces the state to
  Paused and sets the current frame to f; with an engine it dispatches pause, passes f to
  the engine and paints once. A subsequent \<open>play()\<close> on a visible player with a loaded
  json or lot animation of at least one frame sets the state to Playing, leaves the
  current frame at f and resets the begin timestamp to the time of the call, so that the
  frame of the next tick is computed from the time elapsed since \<open>play()\<close> alone and
  does not depend on f.
\<close>

theorem seek_then_play_restarts_clock:
  "currentState (state_of (seek now f p)) = Paused \<and>
   currentFrame (state_of (seek now f p)) = f \<and>
   (\<forall>tvg. TVG p = Some tvg \<longrightarrow>
      seek now f p = Returns (p\<lparr>currentState := Paused, currentFrame := f,
                               trace := trace p @ [Dispatch Ev_Pause, TVG_frame f, Render]\<rparr>) \<and>
      ((fileType p = JSON \<or> fileType p = LOT) \<and> 1 \<le> tvg_totalFrame tvg \<and> observable p \<longrightarrow>
        (\<exists>p2. play t (state_of (seek now f p)) = Returns p2 \<and>
           currentState p2 = Playing \<and> currentFrame p2 = f \<and> beginTime p2 = t / 1000 \<and>
           clock_frame tvg t' p2 =
             (let g = (t' / 1000 - t / 1000) / tvg_duration tvg * tvg_totalFrame tvg * speed p
              in if direction p = - 1 then tvg_totalFrame tvg - g else g))))"
  by (auto simp: seek_def seek_sync_def frame_def update_def pause_def render_def play_def
      clock_frame_def dispatchEvent_def emit_def Let_def split: option.splits)

text \<open>
  The theorem at the sample player: sought to frame 30, played at 5000 ms, the clock
  gives frame 15 at 5500 ms.
\<close>

theorem seek_then_play_restarts_clock_witness:
  "TVG sample_player = Some sample_engine \<and> fileType sample_player = JSON \<and>
   1 \<le> tvg_totalFrame sample_engine \<and> observable sample_player \<and>
   currentState (state_of (seek 0 30 sample_player)) = Paused \<and>
   currentState (state_of (play 5000 (state_of (seek 0 30 sample_player)))) = Playing \<and>
   clock_frame sample_engine 5500 (state_of (play 5000 (state_of (seek 0 30 sample_player)))) = 15"
  using seek_then_play_restarts_clock [where now = 0 and f = 30 and p = sample_player
      and t = 5000 and t' = 5500]
  by (auto simp: sample_defs Let_def)

text \<open>
  What the three closed theorems below show at one player holds at every player:
  \<open>stop()\<close> always ends in state Paused, a tick adds no loop event to the trace, and
  the observer callback dispatches freeze twice when the player was playing and only
  records the visibility otherwise.
\<close>

lemma stop_state_paused: "currentState (stop now p) = Paused"
  by (simp add: stop_def seek_sync_def frame_def update_def pause_def dispatchEvent_def
      emit_def Let_def split: option.splits)

lemma play_no_loop_event:
  "Dispatch Ev_Loop \<notin> set (trace p) \<Longrightarrow> Dispatch Ev_Loop \<notin> set (trace (state_of (play now p)))"
  by (simp add: play_def emit_def Let_def split: option.splits)

lemma update_no_loop_event:
  assumes "Dispatch Ev_Loop \<notin> set (trace p)"
  shows "Dispatch Ev_Loop \<notin> set (trace (fst (state_of (update now now' p))))"
proof (cases "currentState p = Playing")
  case False
  with assms show ?thesis by (simp add: update_def)
next
  case True
  show ?thesis
  proof (cases "TVG p")
    case None
    with True assms show ?thesis by (simp add: update_def)
  next
    case (Some tvg)
    with True assms show ?thesis
      by (simp add: update_def play_def dispatchEvent_def emit_def Let_def)
  qed
qed

lemma observerCallback_playing:
  "currentState p = Playing \<Longrightarrow>
   observerCallback now False p =
     Returns (p\<lparr>observable := False, currentState := Frozen,
                trace := trace p @ [Dispatch Ev_Freeze, Dispatch Ev_Freeze]\<rparr>)"
  by (simp add: observerCallback_def freeze_def dispatchEvent_def emit_def Let_def)

lemma observerCallback_not_playing:
  "currentState p \<noteq> Playing \<Longrightarrow> observerCallback now False p = Returns (p\<lparr>observable := False\<rparr>)"
  by (simp add: observerCallback_def Let_def)

text \<open>
  Claim C5 says that the player is in state Stopped when \<open>stop()\<close> returns. On a
  playing player \<open>stop()\<close> sets Stopped, the frame to 0 and the counter to 1, then calls
  \<open>seek(0)\<close>, whose \<open>_frame\<close> calls \<open>pause()\<close>: when \<open>stop()\<close> returns the state is
  Paused, and a pause event was dispatched before the stop event.
\<close>

theorem stop_leaves_paused:
  "stop 0 playing_player =
     playing_player\<lparr>currentState := Paused, currentFrame := 0, counter := 1,
       trace := [Dispatch Ev_Pause, TVG_frame 0, Dispatch Ev_Stop]\<rparr>"
  by (simp add: sample_defs player_defs)

text \<open>
  Claim C6 says that a tick that loops waits the intermission and then emits a loop
  notification. On a looping player at the end of the leg, the tick waits and restarts
  the clock; the wait is its only effect, and no loop event is dispatched.
\<close>

theorem update_loop_no_loop_event:
  "update 2000 2001 (playing_player\<lparr>loop := True\<rparr>) =
     Returns (playing_player\<lparr>loop := True, currentFrame := 60, beginTime := 2001 / 1000,
                trace := [Wait 1]\<rparr>, True) \<and>
   Dispatch Ev_Loop \<notin> set (trace (fst (state_of (update 2000 2001 (playing_player\<lparr>loop := True\<rparr>)))))"
  by (simp add: sample_defs player_defs)

text \<open>
  Claim C7 says that losing the intersection while Playing dispatches exactly one freeze
  event. The observer callback calls \<open>freeze()\<close>, which dispatches the event, and then
  dispatches it again: the state is Frozen and two freeze events were dispatched.
\<close>

theorem observer_two_freeze_events:
  "observerCallback 0 False playing_player =
     Returns (playing_player\<lparr>currentState := Frozen, observable := False,
                trace := [Dispatch Ev_Freeze, Dispatch Ev_Freeze]\<rparr>)"
  by (simp add: sample_defs player_defs)

section \<open>Source disambiguation\<close>

text \<open>
  The two cases of a string source of file type json or lot. When the string parses as
  JSON, \<open>_parseSrc\<close> fetches nothing, whatever the URL parser would say of the string,
  and the payload is the encoding of the string conversion of the parsed value. When it
  does not parse, the string is read as a URL, the only fetch is of that URL, and the
  payload is the text of the fetched JSON body (an error when the URL is malformed or
  the fetch fails).
\<close>

lemma parseSrc_string_cases:
  "(ft = JSON \<or> ft = LOT) \<longrightarrow>
   (\<forall>v. JSON_parse env s = Some v \<longrightarrow>
      parseSrc env (Str s) ft = ([], Inr (encode env (to_text env v)))) \<and>
   (JSON_parse env s = None \<longrightarrow>
      (case URL_new env s of
         None \<Rightarrow> parseSrc env (Str s) ft = ([], Inl LottieUrlError)
       | Some href \<Rightarrow>
           (case fetch_json env href of
              None \<Rightarrow> parseSrc env (Str s) ft = ([href], Inl LottieUrlError)
            | Some body \<Rightarrow>
                parseSrc env (Str s) ft = ([href], Inr (encode env (JSON_stringify env body))))))"
  by (auto simp: parseSrc_def parseJSON_def parseLottieFromURL_def encode_parsed_def
      split: option.splits)

text \<open>
  With the string conversion of JavaScript, every string that parses to a JSON object
  gives the same payload, the text \<open>[object Object]\<close>: the payload does not depend on
  the string.
\<close>

lemma parseSrc_inline_object:
  assumes "ft = JSON \<or> ft = LOT" and "JSON_parse env s = Some (JObj kvs)"
    and "to_text env = ToString"
  shows "parseSrc env (Str s) ft = ([], Inr (encode env ''[object Object]''))"
  using assms by (auto simp: parseSrc_def parseJSON_def encode_parsed_def)

text \<open>
  Claim C8 says that a json or lot string that parses as JSON is treated as inline data
  and is not fetched. For the string \<open>{}\<close> nothing is fetched, but the payload is the
  text \<open>[object Object]\<close>: \<open>_parseJSON\<close> returns the parsed object, and the encoder
  converts it to a string. The same value passed as an object, and the same text fetched
  from a URL, are stringified first and give the payload \<open>{}\<close>.
\<close>

theorem parseSrc_inline_object_payload:
  "parseSrc js_parse_env (Str ''{}'') JSON = ([], Inr (map of_char ''[object Object]'')) \<and>
   parseSrc js_parse_env (Obj (JObj [])) JSON = ([], Inr (map of_char ''{}'')) \<and>
   parseSrc js_parse_env (Str ''https://host/a.json'') JSON
     = ([''https://host/a.json''], Inr (map of_char ''{}'')) \<and>
   snd (parseSrc js_parse_env (Str ''{}'') JSON) \<noteq> Inr (map of_char ''{}'')"
  by (simp add: js_parse_env_def parseSrc_def parseJSON_def parseLottieFromURL_def
      encode_parsed_def)

section \<open>The worker\<close>

text \<open>
  Claim C9. The INIT command of the worker does not depend on the renderConfig it
  carries: it either creates the engine with the Software renderer (and posts READY) or
  leaves the engine as it was; and in every run of the worker from its start, whatever
  the commands and ticks, the engine is absent or a Software engine.
\<close>

theorem worker_software_only:
  "onmessage wd env (INIT url cfg uo oc) w = onmessage wd env (INIT url None uo oc) w \<and>
   (posted (onmessage wd env (INIT url cfg uo oc) w) = posted w @ [READY]
      \<longrightarrow> w_TVG (onmessage wd env (INIT url cfg uo oc) w) = Some SW) \<and>
   (w_TVG (onmessage wd env (INIT url cfg uo oc) w) = w_TVG w \<or>
    w_TVG (onmessage wd env (INIT url cfg uo oc) w) = Some SW) \<and>
   (w_TVG (worker_run env inputs worker_start) = None \<or>
    w_TVG (worker_run env inputs worker_start) = Some SW)"
proof (intro conjI)
  show "onmessage wd env (INIT url cfg uo oc) w = onmessage wd env (INIT url None uo oc) w"
    by (simp add: onmessage_def initializeWorker_def)
  show "posted (onmessage wd env (INIT url cfg uo oc) w) = posted w @ [READY]
      \<longrightarrow> w_TVG (onmessage wd env (INIT url cfg uo oc) w) = Some SW"
    by (simp add: onmessage_def initializeWorker_def worker_initModule_def postMessage_def
        Let_def)
  show "w_TVG (onmessage wd env (INIT url cfg uo oc) w) = w_TVG w \<or>
    w_TVG (onmessage wd env (INIT url cfg uo oc) w) = Some SW"
    by (rule w_TVG_onmessage)
  show "w_TVG (worker_run env inputs worker_start) = None \<or>
    w_TVG (worker_run env inputs worker_start) = Some SW"
    by (rule w_TVG_worker_run) (simp add: worker_start_def)
qed

text \<open>The theorem at an INIT command that asks for WebGPU: the engine is a Software engine.\<close>

theorem worker_software_only_witness:
  "posted (onmessage sample_world sample_parse_env
      (INIT None (Some \<lparr>enableDevicePixelRatio = None, cfg_renderer = Some WG\<rparr>) None False)
      worker_start) = [READY] \<and>
   w_TVG (onmessage sample_world sample_parse_env
      (INIT None (Some \<lparr>enableDevicePixelRatio = None, cfg_renderer = Some WG\<rparr>) None False)
      worker_start) = Some SW"
  using worker_software_only [where wd = sample_world and env = sample_parse_env
      and url = None and cfg = "Some \<lparr>enableDevicePixelRatio = None, cfg_renderer = Some WG\<rparr>"
      and uo = None and oc = False and w = worker_start and inputs = "[]"]
  by (simp add: onmessage_def initializeWorker_def worker_initModule_def postMessage_def
      Let_def worker_start_def sample_world_def)

text \<open>
  Claim C10. In a tick of the worker's animation loop, when the computed frame reaches
  totalFrames (positive, with a non-zero duration) the frame is wrapped modulo
  totalFrames, the start timestamp is reset to the current time and the loop keeps
  running. The PLAY command that starts the loop is the same whatever the loop, count,
  mode and direction of the delegating player. No run of the worker posts COMPLETE, and
  the delegating player enters state Stopped from another state only on LOADED or
  COMPLETE: handling a response of a worker run never stops a playing player, unless it
  is the LOADED of a load.
\<close>

theorem worker_loop_never_completes:
  "(animationFrame w \<and> isPlaying w \<and> isInitialized w \<and> w_TVG w \<noteq> None \<and>
    currentCanvasInfo w \<noteq> None \<and> 0 < totalFrames w \<and> duration w \<noteq> 0 \<and>
    totalFrames w \<le> tick_frameNumber wd w
    \<longrightarrow> (let n = tick_frameNumber wd w;
              wrapped = n - totalFrames w * of_int \<lfloor>n / totalFrames w\<rfloor>
          in intervalTick wd w =
               renderFrame wd (of_int \<lfloor>wrapped\<rfloor>) (w\<lparr>animationStartTime := clock wd\<rparr>) \<and>
             0 \<le> wrapped \<and> wrapped < totalFrames w \<and>
             animationStartTime (intervalTick wd w) = clock wd \<and>
             isPlaying (intervalTick wd w) \<and> animationFrame (intervalTick wd w))) \<and>
   wp_sent (wp_play (p\<lparr>wp_loop := l, wp_count := c, wp_mode := m, wp_direction := d\<rparr>))
     = wp_sent (wp_play p) \<and>
   (COMPLETE \<notin> set (posted w0) \<longrightarrow> COMPLETE \<notin> set (posted (worker_run env inputs w0))) \<and>
   (\<forall>r. r \<in> set (posted (worker_run env inputs worker_start)) \<and>
        wp_currentState p = Playing \<and> (\<forall>tf sz. r \<noteq> LOADED tf sz)
        \<longrightarrow> wp_currentState (handleWorkerMessage info r p) \<noteq> Stopped)"
proof (intro conjI impI allI)
  assume a: "animationFrame w \<and> isPlaying w \<and> isInitialized w \<and> w_TVG w \<noteq> None \<and>
    currentCanvasInfo w \<noteq> None \<and> 0 < totalFrames w \<and> duration w \<noteq> 0 \<and>
    totalFrames w \<le> tick_frameNumber wd w"
  then have pos: "0 < totalFrames w" and ge: "totalFrames w \<le> tick_frameNumber wd w"
    by simp_all
  have tick: "intervalTick wd w =
      renderFrame wd (of_int \<lfloor>js_rem (tick_frameNumber wd w) (totalFrames w)\<rfloor>)
        (w\<lparr>animationStartTime := clock wd\<rparr>)"
    using a by (auto simp: intervalTick_def Let_def)
  have keep: "animationStartTime (renderFrame wd x v) = animationStartTime v \<and>
      isPlaying (renderFrame wd x v) = isPlaying v \<and>
      animationFrame (renderFrame wd x v) = animationFrame v" for x v
    by (simp add: renderFrame_def postMessage_def Let_def)
  show "let n = tick_frameNumber wd w;
            wrapped = n - totalFrames w * of_int \<lfloor>n / totalFrames w\<rfloor>
        in intervalTick wd w =
             renderFrame wd (of_int \<lfloor>wrapped\<rfloor>) (w\<lparr>animationStartTime := clock wd\<rparr>) \<and>
           0 \<le> wrapped \<and> wrapped < totalFrames w \<and>
           animationStartTime (intervalTick wd w) = clock wd \<and>
           isPlaying (intervalTick wd w) \<and> animationFrame (intervalTick wd w)"
    using js_rem_wrap [OF pos ge] tick keep a by (simp add: Let_def)
next
  show "wp_sent (wp_play (p\<lparr>wp_loop := l, wp_count := c, wp_mode := m, wp_direction := d\<rparr>))
     = wp_sent (wp_play p)"
    by (simp add: wp_play_def sendToWorker_def wp_dispatch_def)
next
  assume "COMPLETE \<notin> set (posted w0)"
  then show "COMPLETE \<notin> set (posted (worker_run env inputs w0))"
    using worker_run_no_complete [of env inputs w0] by blast
next
  fix r
  assume b: "r \<in> set (posted (worker_run env inputs worker_start)) \<and>
        wp_currentState p = Playing \<and> (\<forall>tf sz. r \<noteq> LOADED tf sz)"
  have "COMPLETE \<notin> set (posted (worker_run env inputs worker_start))"
    using worker_run_no_complete [of env inputs worker_start] by (auto simp: worker_start_def)
  with b have "r \<noteq> COMPLETE" by auto
  with b show "wp_currentState (handleWorkerMessage info r p) \<noteq> Stopped"
    using handleWorkerMessage_stopped [of p info r] by auto
qed

text \<open>
  The theorem at a worker that has played the 2-second sample for 2.5 seconds (the
  computed frame 75 is wrapped to 15, the start time becomes 2500 and FRAME 15 is posted),
  and at a session from the start of the worker, whose FRAME response leaves a playing
  player in state Playing.
\<close>

theorem worker_loop_never_completes_witness:
  "tick_frameNumber sample_world playing_worker = 75 \<and>
   intervalTick sample_world playing_worker =
     playing_worker\<lparr>animationStartTime := 2500, posted := [FRAME 15 True False]\<rparr> \<and>
   COMPLETE \<notin> set (posted (worker_run sample_parse_env [(sample_world, IntervalTick)]
      playing_worker)) \<and>
   posted (worker_run sample_parse_env sample_session worker_start) =
     [READY, LOADED 60 (100, 100), FRAME 0 True False] \<and>
   wp_currentState (handleWorkerMessage sample_canvas (FRAME 0 True False) sample_worker_player)
     = Playing"
  using worker_loop_never_completes [where w = playing_worker and wd = sample_world
      and p = sample_worker_player and ?w0.0 = playing_worker and env = sample_parse_env
      and inputs = "[(sample_world, IntervalTick)]"]
    worker_loop_never_completes [where w = playing_worker and wd = sample_world
      and p = sample_worker_player and ?w0.0 = worker_start and env = sample_parse_env
      and inputs = sample_session and info = sample_canvas]
  by (simp add: worker_defs worker_sample_defs parseSrc_def parseJSON_def encode_parsed_def
      sample_parse_env_def handleWorkerMessage_def wp_dispatch_def)

end
